theory Spec2Isabelle
  imports Main "HOL-Library.List_Lexorder" "HOL-Library.Multiset"
begin

section \<open>Python strings\<close>

text \<open>
  A Python \<open>str\<close> is a sequence of Unicode code points. A code point is modelled as a
  natural number and a string as the list of its code points, so that comparison of strings
  (\<open>sorted\<close>) is the lexicographic order of the lists and the whitespace class of \<open>\s\<close> and
  \<open>str.strip()\<close> can be written out in full. \<open>str\<close> turns a literal into its code points.
\<close>

type_synonym pystr = "nat list"

definition str :: "string \<Rightarrow> pystr" where
  "str s = map of_char s"

definition NL :: nat where
  "NL = 10"

text \<open>
  \<open>Py_UNICODE_ISSPACE\<close>: the code points for which \<open>str.isspace\<close> holds; the same class is
  what \<open>\s\<close> matches in a \<open>str\<close> pattern and what \<open>str.strip()\<close> removes.
\<close>

definition isspace :: "nat \<Rightarrow> bool" where
  "isspace c \<longleftrightarrow>
     (9 \<le> c \<and> c \<le> 13) \<or> (28 \<le> c \<and> c \<le> 32) \<or> c = 133 \<or> c = 160 \<or> c = 5760 \<or>
     (8192 \<le> c \<and> c \<le> 8202) \<or> c = 8232 \<or> c = 8233 \<or> c = 8239 \<or> c = 8287 \<or> c = 12288"

text \<open>\<open>s.strip()\<close> and \<open>s.strip(chars)\<close>: drop the characters of a class at both ends.\<close>

definition strip_by :: "(nat \<Rightarrow> bool) \<Rightarrow> pystr \<Rightarrow> pystr" where
  "strip_by P s = rev (dropWhile P (rev (dropWhile P s)))"

text \<open>\<open>s.startswith(p)\<close>, used for the literal parts of the patterns.\<close>

fun startswith :: "pystr \<Rightarrow> pystr \<Rightarrow> bool" where
  "startswith [] s = True"
| "startswith (p # ps) [] = False"
| "startswith (p # ps) (c # cs) = (p = c \<and> startswith ps cs)"

text \<open>
  \<open>path.split(os.sep)\<close> with the one-character separator of POSIX: every separator ends a
  segment, so \<open>''a//b''\<close> has an empty middle segment and the empty string has one empty
  segment.
\<close>

definition os_sep :: nat where
  "os_sep = 47"

fun split_sep :: "nat \<Rightarrow> pystr \<Rightarrow> pystr list" where
  "split_sep sep [] = [[]]"
| "split_sep sep (c # cs) =
     (if c = sep then [] # split_sep sep cs
      else (case split_sep sep cs of
              [] \<Rightarrow> [[c]]
            | seg # segs \<Rightarrow> (c # seg) # segs))"

text \<open>\<open>xs.index(x)\<close>: the first position of \<open>x\<close>; \<open>None\<close> stands for \<open>ValueError\<close>.\<close>

fun list_index :: "'a \<Rightarrow> 'a list \<Rightarrow> nat option" where
  "list_index x [] = None"
| "list_index x (y # ys) = (if y = x then Some 0 else map_option Suc (list_index x ys))"

text \<open>\<open>xs[i]\<close> for a non-negative index; \<open>None\<close> stands for \<open>IndexError\<close>.\<close>

definition getitem :: "'a list \<Rightarrow> nat \<Rightarrow> 'a option" where
  "getitem xs i = (if i < length xs then Some (xs ! i) else None)"

section \<open>The two patterns of \<open>_parse_skill_md\<close>\<close>

text \<open>
  \<open>re.match(r"^---\n(.*?)\n---", content, re.DOTALL)\<close>. The subject has to begin with
  \<open>---\n\<close>; the lazy group then takes the shortest text after which \<open>\n---\<close> follows
  (with \<open>DOTALL\<close> the dot matches a newline as well). \<open>lazy_until\<close> is the group followed by
  a literal; \<open>front_matter\<close> is \<open>m.group(1)\<close>, and \<open>None\<close> when there is no match.
\<close>

fun lazy_until :: "pystr \<Rightarrow> pystr \<Rightarrow> pystr option" where
  "lazy_until lit [] = (if startswith lit [] then Some [] else None)"
| "lazy_until lit (c # cs) =
     (if startswith lit (c # cs) then Some []
      else map_option (Cons c) (lazy_until lit cs))"

definition front_matter :: "pystr \<Rightarrow> pystr option" where
  "front_matter content =
     (if startswith (str ''---'' @ [NL]) content
      then lazy_until (NL # str ''---'') (drop 4 content)
      else None)"

text \<open>
  \<open>re.search(r"^key:\s*(.+)$", fm, re.MULTILINE)\<close> for \<open>key\<close> one of \<open>name\<close> and
  \<open>description\<close>.

  \<open>dot_plus\<close> is \<open>(.+)$\<close>: the greedy group takes the rest of the line (the dot does not
  match a newline here), at least one character; \<open>$\<close> then holds, at the end of the text or
  before a newline.

  \<open>spaces_then_group\<close> is \<open>\s*(.+)$\<close> with the backtracking of the engine: the greedy
  \<open>\s*\<close> first takes a whitespace character (newlines included) and tries the rest; when that
  fails it gives the character back and the group starts there.

  \<open>match_key_at\<close> is one attempt at a position where \<open>^\<close> holds; \<open>search_key\<close> walks the
  positions from left to right, \<open>bol\<close> telling whether the position is the start of the text
  or follows a newline, and returns \<open>group(1)\<close> of the first match.
\<close>

definition dot_plus :: "pystr \<Rightarrow> pystr option" where
  "dot_plus s = (let g = takeWhile (\<lambda>c. c \<noteq> NL) s in if g = [] then None else Some g)"

fun spaces_then_group :: "pystr \<Rightarrow> pystr option" where
  "spaces_then_group [] = None"
| "spaces_then_group (c # cs) =
     (if isspace c
      then (case spaces_then_group cs of
              Some g \<Rightarrow> Some g
            | None \<Rightarrow> dot_plus (c # cs))
      else dot_plus (c # cs))"

definition match_key_at :: "pystr \<Rightarrow> pystr \<Rightarrow> pystr option" where
  "match_key_at key s =
     (if startswith (key @ str '':'') s
      then spaces_then_group (drop (length key + 1) s)
      else None)"

fun search_key :: "pystr \<Rightarrow> bool \<Rightarrow> pystr \<Rightarrow> pystr option" where
  "search_key key bol [] = (if bol then match_key_at key [] else None)"
| "search_key key bol (c # cs) =
     (case (if bol then match_key_at key (c # cs) else None) of
        Some g \<Rightarrow> Some g
      | None \<Rightarrow> search_key key (c = NL) cs)"

text \<open>\<open>group(1).strip().strip('"')\<close>\<close>

definition clean :: "pystr \<Rightarrow> pystr" where
  "clean g = strip_by (\<lambda>c. c = 34) (strip_by isspace g)"

section \<open>Descriptor files\<close>

text \<open>
  The catalog is built from the file system: the results of the two \<open>glob.glob\<close> calls, in
  the order \<open>glob\<close> returns them, and the text that \<open>open(path, encoding="utf-8").read()\<close>
  gives for a path, \<open>None\<close> when opening, reading or decoding raises.
\<close>

record sources =
  skills_glob :: "pystr list"
  plugins_glob :: "pystr list"
  read_text :: "pystr \<Rightarrow> pystr option"

text \<open>
  \<open>_parse_skill_md(path)\<close> returns the pair \<open>(name, desc)\<close>; the name is \<open>None\<close> when the file
  cannot be read (the \<open>except Exception\<close> branch), when the header pattern does not match
  and when no \<open>name:\<close> line matches.
\<close>

definition parse_skill_md :: "sources \<Rightarrow> pystr \<Rightarrow> pystr option \<times> pystr" where
  "parse_skill_md src path =
     (case read_text src path of
        None \<Rightarrow> (None, [])
      | Some content \<Rightarrow>
          (case front_matter content of
             None \<Rightarrow> (None, [])
           | Some fm \<Rightarrow>
               (map_option clean (search_key (str ''name'') True fm),
                case search_key (str ''description'') True fm of
                  None \<Rightarrow> []
                | Some g \<Rightarrow> clean g)))"

section \<open>The command catalog\<close>

text \<open>A command dict \<open>{"command": ..., "description": ..., "takes_args": ...}\<close>.\<close>

record descriptor =
  command :: pystr
  description :: pystr
  takes_args :: bool

definition BUILTIN_COMMANDS :: "descriptor list" where
  "BUILTIN_COMMANDS =
    [
     \<lparr>command = str ''/bug'', description = str ''Report a Claude Code bug'', takes_args = False\<rparr>,
     \<lparr>command = str ''/clear'', description = str ''Clear conversation history'', takes_args = False\<rparr>,
     \<lparr>command = str ''/compact'', description = str ''Compact conversation with summary'', takes_args = True\<rparr>,
     \<lparr>command = str ''/config'', description = str ''Manage configuration'', takes_args = True\<rparr>,
     \<lparr>command = str ''/cost'', description = str ''Show token usage and cost'', takes_args = False\<rparr>,
     \<lparr>command = str ''/doctor'', description = str ''Check Claude Code installation'', takes_args = False\<rparr>,
     \<lparr>command = str ''/exit'', description = str ''Exit Claude Code'', takes_args = False\<rparr>,
     \<lparr>command = str ''/help'', description = str ''Show help'', takes_args = True\<rparr>,
     \<lparr>command = str ''/ide'', description = str ''Connect to IDE'', takes_args = False\<rparr>,
     \<lparr>command = str ''/init'', description = str ''Initialize project with CLAUDE.md'', takes_args = False\<rparr>,
     \<lparr>command = str ''/login'', description = str ''Sign in to Claude'', takes_args = False\<rparr>,
     \<lparr>command = str ''/logout'', description = str ''Sign out from Claude'', takes_args = False\<rparr>,
     \<lparr>command = str ''/mcp'', description = str ''Manage MCP servers'', takes_args = True\<rparr>,
     \<lparr>command = str ''/memory'', description = str ''Edit memory (CLAUDE.md)'', takes_args = False\<rparr>,
     \<lparr>command = str ''/migrate-installer'', description = str ''Migrate to latest installer'', takes_args = False\<rparr>,
     \<lparr>command = str ''/model'', description = str ''Set or show current AI model'', takes_args = True\<rparr>,
     \<lparr>command = str ''/pr-comments'', description = str ''View pull request comments'', takes_args = False\<rparr>,
     \<lparr>command = str ''/reset'', description = str ''Reset to empty project context'', takes_args = False\<rparr>,
     \<lparr>command = str ''/resume'', description = str ''Resume a previous conversation'', takes_args = True\<rparr>,
     \<lparr>command = str ''/review'', description = str ''Request code review'', takes_args = False\<rparr>,
     \<lparr>command = str ''/status'', description = str ''Show account and system status'', takes_args = False\<rparr>,
     \<lparr>command = str ''/terminal'', description = str ''Run a terminal command'', takes_args = True\<rparr>,
     \<lparr>command = str ''/vim'', description = str ''Enter vim mode'', takes_args = False\<rparr>
    ]"

text \<open>
  The elements of the set \<open>seen\<close>: the first loop adds strings (skill names), the second
  loop adds tuples \<open>(plugin_name, name)\<close>. A string never equals a tuple.
\<close>

datatype seen_key = StrKey pystr | TupleKey pystr pystr

text \<open>
  The body of the first loop, for one path of \<open>~/.claude/skills/*/SKILL.md\<close>. \<open>skill_emit\<close>
  is what the body adds for the path: the key for \<open>seen.add\<close> and the dict for
  \<open>commands.append\<close>, or \<open>None\<close> when the \<open>if\<close> is not taken (\<open>name\<close> is \<open>None\<close> or empty, or
  seen already).
\<close>

definition skill_emit :: "sources \<Rightarrow> seen_key set \<Rightarrow> pystr \<Rightarrow> (seen_key \<times> descriptor) option" where
  "skill_emit src seen path =
     (case parse_skill_md src path of
        (None, desc) \<Rightarrow> None
      | (Some name, desc) \<Rightarrow>
          if name \<noteq> [] \<and> StrKey name \<notin> seen
          then Some (StrKey name,
                 \<lparr>command = str ''/'' @ name, description = desc, takes_args = True\<rparr>)
          else None)"

definition skill_body ::
  "sources \<Rightarrow> pystr \<Rightarrow> descriptor list \<times> seen_key set \<Rightarrow> descriptor list \<times> seen_key set" where
  "skill_body src path st =
     (case st of (commands, seen) \<Rightarrow>
        (case skill_emit src seen path of
           None \<Rightarrow> (commands, seen)
         | Some (key, d) \<Rightarrow> (commands @ [d], insert key seen)))"

text \<open>
  The body of the second loop, for one path of \<open>~/.claude/plugins/cache/**/SKILL.md\<close>.
  \<open>plugin_name_of\<close> is the \<open>try\<close> block: \<open>None\<close> when \<open>parts.index("cache")\<close> raises
  \<open>ValueError\<close> or \<open>parts[cache_idx + 2]\<close> raises \<open>IndexError\<close>, and the loop continues.
\<close>

definition plugin_name_of :: "pystr \<Rightarrow> pystr option" where
  "plugin_name_of path =
     (let parts = split_sep os_sep path in
      case list_index (str ''cache'') parts of
        None \<Rightarrow> None
      | Some cache_idx \<Rightarrow> getitem parts (cache_idx + 2))"

definition plugin_emit :: "sources \<Rightarrow> seen_key set \<Rightarrow> pystr \<Rightarrow> (seen_key \<times> descriptor) option" where
  "plugin_emit src seen path =
     (case plugin_name_of path of
        None \<Rightarrow> None
      | Some plugin_name \<Rightarrow>
          (case parse_skill_md src path of
             (None, desc) \<Rightarrow> None
           | (Some name, desc) \<Rightarrow>
               if name = [] then None
               else if TupleKey plugin_name name \<in> seen then None
               else Some (TupleKey plugin_name name,
                      \<lparr>command = (if plugin_name \<noteq> name
                                  then str ''/'' @ plugin_name @ str '':'' @ name
                                  else str ''/'' @ name),
                       description = desc, takes_args = True\<rparr>)))"

definition plugin_body ::
  "sources \<Rightarrow> pystr \<Rightarrow> descriptor list \<times> seen_key set \<Rightarrow> descriptor list \<times> seen_key set" where
  "plugin_body src path st =
     (case st of (commands, seen) \<Rightarrow>
        (case plugin_emit src seen path of
           None \<Rightarrow> (commands, seen)
         | Some (key, d) \<Rightarrow> (commands @ [d], insert key seen)))"

text \<open>
  \<open>_collect_skill_commands()\<close>: both loops over the state \<open>(commands, seen)\<close>, then
  \<open>sorted(commands, key=lambda c: c["command"])\<close>, a stable sort on the command string.
\<close>

definition collect_loops :: "sources \<Rightarrow> descriptor list \<times> seen_key set" where
  "collect_loops src =
     fold (plugin_body src) (plugins_glob src)
       (fold (skill_body src) (skills_glob src) ([], {}))"

definition collect_skill_commands :: "sources \<Rightarrow> descriptor list" where
  "collect_skill_commands src = sort_key command (fst (collect_loops src))"

text \<open>\<open>get_commands()\<close>, the handler of \<open>GET /commands\<close>.\<close>

definition get_commands :: "sources \<Rightarrow> descriptor list" where
  "get_commands src = BUILTIN_COMMANDS @ collect_skill_commands src"

section \<open>Identity keys of catalog entries\<close>

text \<open>
  A dict of the catalog does not record where it came from. To state which identity key an
  entry has, the loops are run once more with every appended dict paired with the key that
  was added to \<open>seen\<close> for it; \<open>tagged_body\<close> is the loop body for either loop (\<open>emit\<close> is
  \<open>skill_emit src\<close> or \<open>plugin_emit src\<close>). Dropping the keys gives back what the code
  computes (lemma \<open>collect_tagged_erase\<close> below).
\<close>

definition tagged_body ::
  "(seen_key set \<Rightarrow> pystr \<Rightarrow> (seen_key \<times> descriptor) option) \<Rightarrow> pystr \<Rightarrow>
     (seen_key \<times> descriptor) list \<times> seen_key set \<Rightarrow> (seen_key \<times> descriptor) list \<times> seen_key set" where
  "tagged_body emit path st =
     (case st of (tagged, seen) \<Rightarrow>
        (case emit seen path of
           None \<Rightarrow> (tagged, seen)
         | Some (key, d) \<Rightarrow> (tagged @ [(key, d)], insert key seen)))"

definition collect_loops_tagged :: "sources \<Rightarrow> (seen_key \<times> descriptor) list \<times> seen_key set" where
  "collect_loops_tagged src =
     fold (tagged_body (plugin_emit src)) (plugins_glob src)
       (fold (tagged_body (skill_emit src)) (skills_glob src) ([], {}))"

definition collect_tagged :: "sources \<Rightarrow> (seen_key \<times> descriptor) list" where
  "collect_tagged src = sort_key (\<lambda>kd. command (snd kd)) (fst (collect_loops_tagged src))"

text \<open>
  The bare command name of an entry is its command string without the leading slash; it is
  the identity key of a built-in entry, and of a user-level entry, whose command is
  \<open>"/" + name\<close>. \<open>catalog_tagged\<close> is the whole catalog of \<open>GET /commands\<close> with the identity
  key of every entry.
\<close>

definition bare_name :: "pystr \<Rightarrow> pystr" where
  "bare_name cmd = drop 1 cmd"

definition catalog_tagged :: "sources \<Rightarrow> (seen_key \<times> descriptor) list" where
  "catalog_tagged src =
     map (\<lambda>d. (StrKey (bare_name (command d)), d)) BUILTIN_COMMANDS @ collect_tagged src"

text \<open>The command string that the loops build for a key.\<close>

fun key_command :: "seen_key \<Rightarrow> pystr" where
  "key_command (StrKey name) = str ''/'' @ name"
| "key_command (TupleKey plugin_name name) =
     (if plugin_name \<noteq> name then str ''/'' @ plugin_name @ str '':'' @ name
      else str ''/'' @ name)"

text \<open>
  Dropping the keys of a tagged loop state, and the invariant of the tagged loops: the keys
  of the entries are pairwise different, all of them are in \<open>seen\<close>, and the command string
  of every entry is the one built from its key.
\<close>

definition erase ::
  "(seen_key \<times> descriptor) list \<times> seen_key set \<Rightarrow> descriptor list \<times> seen_key set" where
  "erase st = (map snd (fst st), snd st)"

definition tagged_inv :: "(seen_key \<times> descriptor) list \<times> seen_key set \<Rightarrow> bool" where
  "tagged_inv st \<longleftrightarrow>
     distinct (map fst (fst st)) \<and> fst ` set (fst st) \<subseteq> snd st \<and>
     map (\<lambda>kd. command (snd kd)) (fst st) = map (\<lambda>kd. key_command (fst kd)) (fst st)"


section \<open>The pane mirror\<close>

text \<open>
  What \<open>subprocess.run(..., timeout=5)\<close> does is decided outside the program: it raises
  (\<open>TimeoutExpired\<close> after the timeout, \<open>OSError\<close> when the binary cannot be started,
  \<open>ValueError\<close> for output that cannot be decoded or an argument with a null character), or
  it returns a \<open>CompletedProcess\<close>. No call passes \<open>check=True\<close>, so a process that exits with
  a non-zero status is a returned one.
\<close>

datatype py_exception = TimeoutExpired | OSError | ValueError

record completed_process =
  returncode :: int
  stdout :: pystr

text \<open>
  One pass of the \<open>while True\<close> body of \<open>event_generator\<close>, before the sleep: the outcome of
  the \<open>capture-pane\<close> call is given, \<open>prev\<close> is \<open>None\<close> for Python's \<open>None\<close>. The result is the
  list of frames yielded in the pass and the new \<open>prev\<close>. \<open>dumps\<close> stands for \<open>json.dumps\<close>.
\<close>

definition sse_frame :: "(pystr \<Rightarrow> pystr) \<Rightarrow> pystr \<Rightarrow> pystr" where
  "sse_frame dumps current = str ''data: '' @ dumps current @ [NL, NL]"

fun poll_cycle ::
  "(pystr \<Rightarrow> pystr) \<Rightarrow> pystr option \<Rightarrow> py_exception + completed_process \<Rightarrow>
     pystr list \<times> pystr option" where
  "poll_cycle dumps prev (Inl e) = ([], prev)"
| "poll_cycle dumps prev (Inr result) =
     (let current = stdout result in
      if Some current \<noteq> prev then ([sse_frame dumps current], Some current)
      else ([], prev))"

text \<open>
  The generator run for as many passes as there are capture outcomes, from a given \<open>prev\<close>:
  all frames yielded, in order, and the last \<open>prev\<close>. The generator itself starts with
  \<open>prev = None\<close>. The loop has no exit of its own; a run is as long as its subscriber stays.
\<close>

fun event_generator_from ::
  "(pystr \<Rightarrow> pystr) \<Rightarrow> pystr option \<Rightarrow> (py_exception + completed_process) list \<Rightarrow>
     pystr list \<times> pystr option" where
  "event_generator_from dumps prev [] = ([], prev)"
| "event_generator_from dumps prev (c # cs) =
     (case poll_cycle dumps prev c of
        (frames, prev') \<Rightarrow>
          (case event_generator_from dumps prev' cs of
             (later, final) \<Rightarrow> (frames @ later, final)))"

definition event_generator ::
  "(pystr \<Rightarrow> pystr) \<Rightarrow> (py_exception + completed_process) list \<Rightarrow> pystr list \<times> pystr option" where
  "event_generator dumps captures = event_generator_from dumps None captures"

section \<open>The input injector\<close>

text \<open>
  A handler is run against the session boundary: \<open>run calls argv\<close> is the outcome of
  \<open>subprocess.run(argv, timeout=5)\<close> when \<open>calls\<close> are the invocations the handler has made
  before, an exception or the exit status. A handler returns the invocations it made, in
  order, and either the exception that left it or its response dict. \<open>tmux\<close> is the path of
  the binary (\<open>TMUX\<close>, found at start-up).
\<close>

definition TMUX_SESSION :: pystr where
  "TMUX_SESSION = str ''claude''"

definition sent :: "(pystr \<times> pystr) list" where
  "sent = [(str ''status'', str ''sent'')]"

text \<open>
  The two argument lists: \<open>[TMUX, "send-keys", "-t", TMUX_SESSION, "-l", text]\<close>, which asks
  for \<open>text\<close> to be sent literally, and \<open>[TMUX, "send-keys", "-t", TMUX_SESSION, key]\<close>, which
  names a key. Each is a list, run without a shell, so \<open>text\<close> and \<open>key\<close> are one argument
  each.
\<close>

definition literal_argv :: "pystr \<Rightarrow> pystr \<Rightarrow> pystr list" where
  "literal_argv tmux text = [tmux, str ''send-keys'', str ''-t'', TMUX_SESSION, str ''-l'', text]"

definition key_argv :: "pystr \<Rightarrow> pystr \<Rightarrow> pystr list" where
  "key_argv tmux key = [tmux, str ''send-keys'', str ''-t'', TMUX_SESSION, key]"

definition send_text ::
  "pystr \<Rightarrow> (pystr list list \<Rightarrow> pystr list \<Rightarrow> py_exception + int) \<Rightarrow> pystr \<Rightarrow>
     pystr list list \<times> (py_exception + (pystr \<times> pystr) list)" where
  "send_text tmux run text =
     (case run [] (literal_argv tmux text) of
        Inl e \<Rightarrow> ([literal_argv tmux text], Inl e)
      | Inr status1 \<Rightarrow>
          (case run [literal_argv tmux text] (key_argv tmux (str ''Enter'')) of
             Inl e \<Rightarrow> ([literal_argv tmux text, key_argv tmux (str ''Enter'')], Inl e)
           | Inr status2 \<Rightarrow>
               ([literal_argv tmux text, key_argv tmux (str ''Enter'')], Inr sent)))"

definition send_key ::
  "pystr \<Rightarrow> (pystr list list \<Rightarrow> pystr list \<Rightarrow> py_exception + int) \<Rightarrow> pystr \<Rightarrow>
     pystr list list \<times> (py_exception + (pystr \<times> pystr) list)" where
  "send_key tmux run key =
     (case run [] (key_argv tmux key) of
        Inl e \<Rightarrow> ([key_argv tmux key], Inl e)
      | Inr status \<Rightarrow> ([key_argv tmux key], Inr sent))"

text \<open>
  Session boundaries for the examples: one where every call returns with status 0, one where
  every call runs into the timeout, and one where the first call of a request returns and
  every later one runs into the timeout.
\<close>

definition run_ok :: "pystr list list \<Rightarrow> pystr list \<Rightarrow> py_exception + int" where
  "run_ok calls argv = Inr 0"

definition run_timeout :: "pystr list list \<Rightarrow> pystr list \<Rightarrow> py_exception + int" where
  "run_timeout calls argv = Inl TimeoutExpired"

definition run_second_timeout :: "pystr list list \<Rightarrow> pystr list \<Rightarrow> py_exception + int" where
  "run_second_timeout calls argv = (if calls = [] then Inr 0 else Inl TimeoutExpired)"

section \<open>Example descriptor trees\<close>

text \<open>
  \<open>skill_file n d\<close> is the text of a \<open>SKILL.md\<close> whose front matter gives the name \<open>n\<close> and the
  description \<open>d\<close>. The trees below hold a single user skill, or a user skill and a plugin
  skill, under the home directory \<open>/home/u\<close>.
\<close>

definition skill_file :: "string \<Rightarrow> string \<Rightarrow> pystr" where
  "skill_file n d =
     str ''---'' @ [NL] @ str ''name: '' @ str n @ [NL] @
     str ''description: '' @ str d @ [NL] @ str ''---'' @ [NL]"

definition clear_path :: pystr where
  "clear_path = str ''/home/u/.claude/skills/clear/SKILL.md''"

definition src_clear :: sources where
  "src_clear =
     \<lparr>skills_glob = [clear_path], plugins_glob = [],
      read_text = (\<lambda>p. if p = clear_path then Some (skill_file ''clear'' ''Wipe the screen'')
                        else None)\<rparr>"

definition deploy_path :: pystr where
  "deploy_path = str ''/home/u/.claude/skills/deploy/SKILL.md''"

definition src_deploy :: sources where
  "src_deploy =
     \<lparr>skills_glob = [deploy_path], plugins_glob = [],
      read_text = (\<lambda>p. if p = deploy_path then Some (skill_file ''deploy'' ''Deploy app'')
                        else None)\<rparr>"

definition zoom_path :: pystr where
  "zoom_path = str ''/home/u/.claude/skills/zoom/SKILL.md''"

definition src_zoom :: sources where
  "src_zoom =
     \<lparr>skills_glob = [zoom_path], plugins_glob = [],
      read_text = (\<lambda>p. if p = zoom_path then Some (skill_file ''zoom'' ''Zoom in'')
                        else None)\<rparr>"

definition foo_path :: pystr where
  "foo_path = str ''/home/u/.claude/skills/foo/SKILL.md''"

definition foo_plugin_path :: pystr where
  "foo_plugin_path = str ''/home/u/.claude/plugins/cache/mkt/foo/1.0.0/skills/foo/SKILL.md''"

definition src_foo :: sources where
  "src_foo =
     \<lparr>skills_glob = [foo_path], plugins_glob = [foo_plugin_path],
      read_text = (\<lambda>p. if p = foo_path then Some (skill_file ''foo'' ''My foo'')
                        else if p = foo_plugin_path then Some (skill_file ''foo'' ''Plugin foo'')
                        else None)\<rparr>"

definition toolkit_path :: pystr where
  "toolkit_path = str ''/home/u/.claude/plugins/cache/market1/toolkit/1.0.0/SKILL.md''"

definition src_toolkit :: sources where
  "src_toolkit =
     \<lparr>skills_glob = [], plugins_glob = [toolkit_path],
      read_text = (\<lambda>p. if p = toolkit_path then Some (skill_file ''build'' ''Build it'')
                        else None)\<rparr>"





definition shallow_path :: pystr where
  "shallow_path = str ''/home/u/.claude/plugins/cache/SKILL.md''"










text \<open>
  The plugin tree of the \<open>toolkit\<close> example under a home directory that has a segment
  \<open>cache\<close> itself, \<open>/var/cache/u\<close>.
\<close>

definition var_cache_path :: pystr where
  "var_cache_path =
     str ''/var/cache/u/.claude/plugins/cache/market1/toolkit/1.0.0/SKILL.md''"

definition src_var_cache :: sources where
  "src_var_cache =
     \<lparr>skills_glob = [], plugins_glob = [var_cache_path],
      read_text = (\<lambda>p. if p = var_cache_path then Some (skill_file ''build'' ''Build it'')
                        else None)\<rparr>"


text \<open>
  For the examples of the pane mirror, an encoder in the place of \<open>json.dumps\<close> that puts
  the text between double quotes; for those of the injector, a session boundary at which
  every call returns with exit status 1, as \<open>tmux\<close> does when the session does not exist.
\<close>

definition quote_dumps :: "pystr \<Rightarrow> pystr" where
  "quote_dumps s = 34 # s @ [34]"

definition run_status1 :: "pystr list list \<Rightarrow> pystr list \<Rightarrow> py_exception + int" where
  "run_status1 calls argv = Inr 1"

section \<open>Properties of the catalog builder\<close>

subsection \<open>Erasing the keys\<close>

lemma insort_key_erase:
  "map snd (insort_key (\<lambda>kd. f (snd kd)) x xs) = insort_key f (snd x) (map snd xs)"
  by (induction xs) simp_all

lemma sort_key_erase:
  "map snd (sort_key (\<lambda>kd. f (snd kd)) xs) = sort_key f (map snd xs)"
  by (induction xs) (simp_all add: insort_key_erase)

lemma skill_body_erase: "erase (tagged_body (skill_emit src) path st) = skill_body src path (erase st)"
  by (cases st) (simp add: erase_def tagged_body_def skill_body_def split: option.split prod.split)

lemma plugin_body_erase: "erase (tagged_body (plugin_emit src) path st) = plugin_body src path (erase st)"
  by (cases st) (simp add: erase_def tagged_body_def plugin_body_def split: option.split prod.split)

lemma fold_skill_erase:
  "erase (fold (tagged_body (skill_emit src)) paths st) = fold (skill_body src) paths (erase st)"
  by (induction paths arbitrary: st) (simp_all add: skill_body_erase)

lemma fold_plugin_erase:
  "erase (fold (tagged_body (plugin_emit src)) paths st) = fold (plugin_body src) paths (erase st)"
  by (induction paths arbitrary: st) (simp_all add: plugin_body_erase)

lemma collect_loops_erase: "erase (collect_loops_tagged src) = collect_loops src"
  by (simp add: collect_loops_tagged_def collect_loops_def fold_plugin_erase fold_skill_erase)
     (simp add: erase_def)

lemma collect_tagged_erase: "map snd (collect_tagged src) = collect_skill_commands src"
proof -
  have "fst (erase (collect_loops_tagged src)) = fst (collect_loops src)"
    by (simp add: collect_loops_erase)
  then have "map snd (fst (collect_loops_tagged src)) = fst (collect_loops src)"
    by (simp add: erase_def)
  then show ?thesis
    by (simp add: collect_tagged_def collect_skill_commands_def sort_key_erase)
qed

subsection \<open>The keys in \<open>seen\<close>\<close>

lemma skill_emit_fresh: "skill_emit src seen path = Some (k, d) \<Longrightarrow> k \<notin> seen"
  by (auto simp: skill_emit_def split: prod.splits option.splits if_splits)

lemma plugin_emit_fresh: "plugin_emit src seen path = Some (k, d) \<Longrightarrow> k \<notin> seen"
  by (auto simp: plugin_emit_def split: prod.splits option.splits if_splits)

lemma skill_emit_command: "skill_emit src seen path = Some (k, d) \<Longrightarrow> command d = key_command k"
  by (auto simp: skill_emit_def split: prod.splits option.splits if_splits)

lemma plugin_emit_command: "plugin_emit src seen path = Some (k, d) \<Longrightarrow> command d = key_command k"
  by (auto simp: plugin_emit_def split: prod.splits option.splits if_splits)

lemma tagged_body_inv:
  assumes fresh: "\<And>seen k d. emit seen path = Some (k, d) \<Longrightarrow> k \<notin> seen"
    and cmd: "\<And>seen k d. emit seen path = Some (k, d) \<Longrightarrow> command d = key_command k"
    and inv: "tagged_inv st"
  shows "tagged_inv (tagged_body emit path st)"
proof (cases st)
  case (Pair tagged seen)
  show ?thesis
  proof (cases "emit seen path")
    case None
    with Pair inv show ?thesis by (simp add: tagged_body_def)
  next
    case (Some kd)
    obtain k d where kd: "kd = (k, d)" by (cases kd)
    from Some kd fresh have "k \<notin> seen" by simp
    moreover from Some kd cmd have "command d = key_command k" by simp
    ultimately show ?thesis
      using Pair inv Some kd by (auto simp: tagged_body_def tagged_inv_def)
  qed
qed

lemma fold_tagged_inv:
  assumes fresh: "\<And>seen path k d. emit seen path = Some (k, d) \<Longrightarrow> k \<notin> seen"
    and cmd: "\<And>seen path k d. emit seen path = Some (k, d) \<Longrightarrow> command d = key_command k"
  shows "tagged_inv st \<Longrightarrow> tagged_inv (fold (tagged_body emit) paths st)"
proof (induction paths arbitrary: st)
  case Nil
  then show ?case by simp
next
  case (Cons p ps)
  have "tagged_inv (tagged_body emit p st)"
    using fresh cmd Cons.prems by (rule tagged_body_inv)
  then show ?case using Cons.IH by simp
qed

lemma collect_loops_tagged_inv: "tagged_inv (collect_loops_tagged src)"
proof -
  have "tagged_inv ([], {})"
    by (simp add: tagged_inv_def)
  then have "tagged_inv (fold (tagged_body (skill_emit src)) (skills_glob src) ([], {}))"
    by (rule fold_tagged_inv [rotated 2]) (auto dest: skill_emit_fresh skill_emit_command)
  then show ?thesis
    unfolding collect_loops_tagged_def
    by (rule fold_tagged_inv [rotated 2]) (auto dest: plugin_emit_fresh plugin_emit_command)
qed

lemma distinct_keys_sort:
  "distinct (map fst (sort_key f xs)) = distinct (map fst xs)"
  by (rule mset_eq_imp_distinct_iff) simp

lemma sort_key_pointwise:
  "map g xs = map h xs \<Longrightarrow> map g (sort_key f xs) = map h (sort_key f xs)"
  by simp

lemma builtin_commands_sorted: "sorted (map command BUILTIN_COMMANDS)"
  by (simp add: BUILTIN_COMMANDS_def str_def)

lemma builtin_commands_distinct: "distinct (map command BUILTIN_COMMANDS)"
  by (simp add: BUILTIN_COMMANDS_def str_def)

lemma builtin_last: "d \<in> set BUILTIN_COMMANDS \<Longrightarrow> command d \<le> str ''/vim''"
  by (auto simp add: BUILTIN_COMMANDS_def str_def)

subsection \<open>The example trees, evaluated\<close>

lemmas parse_eval =
  parse_skill_md_def front_matter_def match_key_at_def dot_plus_def isspace_def clean_def
  strip_by_def skill_file_def str_def NL_def

lemma parse_clear:
  "parse_skill_md src_clear clear_path = (Some (str ''clear''), str ''Wipe the screen'')"
  by (simp add: src_clear_def clear_path_def parse_eval)

lemma parse_deploy:
  "parse_skill_md src_deploy deploy_path = (Some (str ''deploy''), str ''Deploy app'')"
  by (simp add: src_deploy_def deploy_path_def parse_eval)

lemma parse_zoom:
  "parse_skill_md src_zoom zoom_path = (Some (str ''zoom''), str ''Zoom in'')"
  by (simp add: src_zoom_def zoom_path_def parse_eval)

lemma parse_foo:
  "parse_skill_md src_foo foo_path = (Some (str ''foo''), str ''My foo'')"
  by (simp add: src_foo_def foo_path_def parse_eval)

lemma parse_foo_plugin:
  "parse_skill_md src_foo foo_plugin_path = (Some (str ''foo''), str ''Plugin foo'')"
  by (simp add: src_foo_def foo_path_def foo_plugin_path_def parse_eval)

lemma plugin_name_foo: "plugin_name_of foo_plugin_path = Some (str ''foo'')"
  by (simp add: plugin_name_of_def foo_plugin_path_def os_sep_def getitem_def str_def)

lemma globs_clear: "skills_glob src_clear = [clear_path]" "plugins_glob src_clear = []"
  by (simp_all add: src_clear_def)

lemma globs_deploy: "skills_glob src_deploy = [deploy_path]" "plugins_glob src_deploy = []"
  by (simp_all add: src_deploy_def)

lemma globs_zoom: "skills_glob src_zoom = [zoom_path]" "plugins_glob src_zoom = []"
  by (simp_all add: src_zoom_def)

lemma globs_foo: "skills_glob src_foo = [foo_path]" "plugins_glob src_foo = [foo_plugin_path]"
  by (simp_all add: src_foo_def)

lemma tagged_clear:
  "collect_tagged src_clear =
     [(StrKey (str ''clear''),
       \<lparr>command = str ''/clear'', description = str ''Wipe the screen'', takes_args = True\<rparr>)]"
  by (simp add: collect_tagged_def collect_loops_tagged_def globs_clear tagged_body_def
      skill_emit_def parse_clear) (simp add: str_def)

lemma collect_deploy:
  "collect_skill_commands src_deploy =
     [\<lparr>command = str ''/deploy'', description = str ''Deploy app'', takes_args = True\<rparr>]"
  by (simp add: collect_skill_commands_def collect_loops_def globs_deploy skill_body_def
      skill_emit_def parse_deploy) (simp add: str_def)

lemma collect_zoom:
  "collect_skill_commands src_zoom =
     [\<lparr>command = str ''/zoom'', description = str ''Zoom in'', takes_args = True\<rparr>]"
  by (simp add: collect_skill_commands_def collect_loops_def globs_zoom skill_body_def
      skill_emit_def parse_zoom) (simp add: str_def)

lemma collect_foo:
  "collect_skill_commands src_foo =
     [\<lparr>command = str ''/foo'', description = str ''My foo'', takes_args = True\<rparr>,
      \<lparr>command = str ''/foo'', description = str ''Plugin foo'', takes_args = True\<rparr>]"
  by (simp add: collect_skill_commands_def collect_loops_def globs_foo skill_body_def
      plugin_body_def skill_emit_def plugin_emit_def parse_foo parse_foo_plugin plugin_name_foo)
     (simp add: str_def)

subsection \<open>Claims on the catalog\<close>

text \<open>
  C1, as amended. The claim as written fails (see the counterexample below): the built-in
  list is never consulted when skills are collected. What the code guarantees: among the
  discovered entries no two user-level entries have the same name and no two plugin entries
  have the same (plugin identity, skill name) pair, so the keys added to \<open>seen\<close> for the
  discovered entries are pairwise different; every discovered entry carries the command
  string built from its key; and the built-in entries have pairwise different names. The
  first conjunct says that the tagged list is the list the code returns, with the keys
  added.
\<close>
theorem discovered_identity_keys_distinct:
  "map snd (collect_tagged src) = collect_skill_commands src \<and>
   map (\<lambda>kd. command (snd kd)) (collect_tagged src) =
     map (\<lambda>kd. key_command (fst kd)) (collect_tagged src) \<and>
   distinct (map fst (collect_tagged src)) \<and>
   distinct (map command BUILTIN_COMMANDS)"
proof -
  have inv: "tagged_inv (collect_loops_tagged src)"
    by (rule collect_loops_tagged_inv)
  have keys: "distinct (map fst (collect_tagged src))"
    using inv by (simp add: collect_tagged_def distinct_keys_sort tagged_inv_def)
  have "map (\<lambda>kd. command (snd kd)) (fst (collect_loops_tagged src)) =
        map (\<lambda>kd. key_command (fst kd)) (fst (collect_loops_tagged src))"
    using inv by (simp add: tagged_inv_def)
  then have cmds: "map (\<lambda>kd. command (snd kd)) (collect_tagged src) =
        map (\<lambda>kd. key_command (fst kd)) (collect_tagged src)"
    unfolding collect_tagged_def by (rule sort_key_pointwise)
  show ?thesis
    using keys cmds collect_tagged_erase builtin_commands_distinct by simp
qed

text \<open>
  C1 as written is false: with one user skill whose front matter says \<open>name: clear\<close>, the
  catalog holds the built-in \<open>/clear\<close> and the user-level \<open>/clear\<close>, two entries whose
  identity key is the bare command name \<open>clear\<close>.
\<close>
theorem builtin_name_repeated_counterexample:
  "map snd (catalog_tagged src_clear) = get_commands src_clear \<and>
   \<not> distinct (map fst (catalog_tagged src_clear))"
proof
  show "map snd (catalog_tagged src_clear) = get_commands src_clear"
    by (simp add: catalog_tagged_def get_commands_def collect_tagged_erase comp_def)
  show "\<not> distinct (map fst (catalog_tagged src_clear))"
    by (simp add: catalog_tagged_def tagged_clear BUILTIN_COMMANDS_def bare_name_def str_def)
qed

text \<open>
  C2, as amended. The catalog is not ordered by command string as a whole (see the
  counterexample below). The built-in block is ordered, the discovered block is ordered, and
  the whole sequence is ordered exactly when no discovered command string is smaller than
  \<open>/vim\<close>, the last built-in.
\<close>
theorem catalog_sorted_iff:
  "sorted (map command BUILTIN_COMMANDS) \<and>
   sorted (map command (collect_skill_commands src)) \<and>
   (sorted (map command (get_commands src)) \<longleftrightarrow>
      (\<forall>d \<in> set (collect_skill_commands src). str ''/vim'' \<le> command d))"
proof -
  have vim: "\<lparr>command = str ''/vim'', description = str ''Enter vim mode'', takes_args = False\<rparr>
      \<in> set BUILTIN_COMMANDS"
    by (simp add: BUILTIN_COMMANDS_def)
  have disc: "sorted (map command (collect_skill_commands src))"
    by (simp add: collect_skill_commands_def)
  have "sorted (map command (get_commands src)) \<longleftrightarrow>
      (\<forall>b \<in> set BUILTIN_COMMANDS. \<forall>d \<in> set (collect_skill_commands src). command b \<le> command d)"
    using disc builtin_commands_sorted by (auto simp: get_commands_def sorted_append)
  also have "\<dots> \<longleftrightarrow> (\<forall>d \<in> set (collect_skill_commands src). str ''/vim'' \<le> command d)"
  proof
    assume all: "\<forall>b \<in> set BUILTIN_COMMANDS. \<forall>d \<in> set (collect_skill_commands src). command b \<le> command d"
    show "\<forall>d \<in> set (collect_skill_commands src). str ''/vim'' \<le> command d"
    proof
      fix d assume "d \<in> set (collect_skill_commands src)"
      with all vim have "command \<lparr>command = str ''/vim'', description = str ''Enter vim mode'', takes_args = False\<rparr> \<le> command d"
        by blast
      then show "str ''/vim'' \<le> command d" by simp
    qed
  next
    assume "\<forall>d \<in> set (collect_skill_commands src). str ''/vim'' \<le> command d"
    then show "\<forall>b \<in> set BUILTIN_COMMANDS. \<forall>d \<in> set (collect_skill_commands src). command b \<le> command d"
      using builtin_last by (meson order_trans)
  qed
  finally show ?thesis
    using disc builtin_commands_sorted by simp
qed

text \<open>
  The tree with the single user skill \<open>zoom\<close>: \<open>/zoom\<close> is not smaller than \<open>/vim\<close>, and the
  catalog is ordered.
\<close>
theorem catalog_sorted_iff_witness:
  "map command (collect_skill_commands src_zoom) = [str ''/zoom''] \<and>
   str ''/vim'' \<le> str ''/zoom'' \<and>
   sorted (map command (get_commands src_zoom))"
proof -
  have le: "str ''/vim'' \<le> str ''/zoom''"
    by (simp add: str_def)
  then have h: "\<forall>d \<in> set (collect_skill_commands src_zoom). str ''/vim'' \<le> command d"
    by (simp add: collect_zoom)
  with catalog_sorted_iff [of src_zoom] le show ?thesis
    by (simp add: collect_zoom)
qed

text \<open>
  C2 as written is false: with the single user skill \<open>deploy\<close> the catalog ends with
  \<open>/vim\<close>, \<open>/deploy\<close>.
\<close>
theorem catalog_not_sorted_counterexample:
  "\<not> sorted (map command (get_commands src_deploy))"
proof -
  have "\<not> str ''/vim'' \<le> str ''/deploy''"
    by (simp add: str_def)
  then show ?thesis
    by (simp add: get_commands_def collect_deploy sorted_append BUILTIN_COMMANDS_def)
qed

text \<open>
  C3, as amended. The catalog is the built-in list, unchanged, followed by exactly the
  entries the two loops appended, ordered by command string. The order is not strict: two
  discovered entries can have the same command string (see the counterexample below), and
  entries with the same command string \<open>c\<close> stay in the order in which they were discovered.
\<close>
theorem builtins_then_sorted_discovered:
  "take (length BUILTIN_COMMANDS) (get_commands src) = BUILTIN_COMMANDS \<and>
   drop (length BUILTIN_COMMANDS) (get_commands src) = collect_skill_commands src \<and>
   mset (collect_skill_commands src) = mset (fst (collect_loops src)) \<and>
   sorted (map command (collect_skill_commands src)) \<and>
   filter (\<lambda>d. command d = c) (collect_skill_commands src) =
     filter (\<lambda>d. command d = c) (fst (collect_loops src))"
  by (simp add: get_commands_def collect_skill_commands_def sort_key_stable)

text \<open>
  C3 as written is false: a user skill \<open>foo\<close> and a skill \<open>foo\<close> of a plugin \<open>foo\<close> both give
  the command \<open>/foo\<close>; their keys in \<open>seen\<close>, a string and a tuple, differ. The discovered
  entries are then not strictly ordered.
\<close>
theorem discovered_not_strict_counterexample:
  "\<not> sorted_wrt (<) (map command (drop (length BUILTIN_COMMANDS) (get_commands src_foo)))"
  by (simp add: get_commands_def collect_foo)

subsection \<open>Paths and headers\<close>

lemma split_sep_not_Nil: "split_sep sep s \<noteq> []"
  by (induction s) (auto split: list.split)

lemma split_sep_append:
  "split_sep sep (a @ sep # b) = split_sep sep a @ split_sep sep b"
proof (induction a)
  case Nil
  show ?case by simp
next
  case (Cons c a)
  obtain seg segs where "split_sep sep a = seg # segs"
    using split_sep_not_Nil [of sep a] by (cases "split_sep sep a") auto
  with Cons show ?case by simp
qed

lemma list_index_first:
  "x \<notin> set pre \<Longrightarrow> list_index x (pre @ x # rest) = Some (length pre)"
  by (induction pre) auto

lemma list_index_None: "x \<notin> set xs \<Longrightarrow> list_index x xs = None"
  by (induction xs) auto

lemma plugin_name_of_parts:
  assumes "split_sep os_sep path = pre @ str ''cache'' # rest" and "str ''cache'' \<notin> set pre"
  shows "plugin_name_of path = getitem rest 1"
  using assms by (simp add: plugin_name_of_def list_index_first getitem_def nth_append)

lemma plugin_name_of_no_anchor:
  "str ''cache'' \<notin> set (split_sep os_sep path) \<Longrightarrow> plugin_name_of path = None"
  by (simp add: plugin_name_of_def list_index_None)







subsection \<open>Single descriptor files\<close>

text \<open>
  One pass of the plugin loop, for a path whose segments are \<open>pre\<close>, then the first
  segment \<open>cache\<close>, then the rest. When at least two segments follow, the second of them is
  taken as the plugin identity: with a parsed, non-empty name and a key not seen before,
  the pass appends one entry, whose command is \<open>"/" + name\<close> when the plugin identity equals
  the name and \<open>"/" + plugin + ":" + name\<close> otherwise, and adds the key. When the path has no
  segment \<open>cache\<close>, or fewer than two segments follow the first one, the pass changes
  nothing. A path that ends with \<open>/cache/market1/toolkit/1.0.0/SKILL.md\<close> and has no
  segment \<open>cache\<close> before gives, with the name \<open>build\<close>, the command \<open>/toolkit:build\<close>.
\<close>
theorem plugin_entry:
  "(split_sep os_sep path = pre @ str ''cache'' # market # plugin # deeper \<and>
    str ''cache'' \<notin> set pre \<and>
    parse_skill_md src path = (Some name, desc) \<and> name \<noteq> [] \<and> TupleKey plugin name \<notin> seen \<longrightarrow>
      plugin_body src path (commands, seen) =
        (commands @
           [\<lparr>command = (if plugin = name then str ''/'' @ name
                        else str ''/'' @ plugin @ str '':'' @ name),
             description = desc, takes_args = True\<rparr>],
         insert (TupleKey plugin name) seen)) \<and>
   (str ''cache'' \<notin> set (split_sep os_sep path) \<or>
    (split_sep os_sep path = pre @ str ''cache'' # rest \<and> str ''cache'' \<notin> set pre \<and>
     length rest < 2) \<longrightarrow>
      plugin_body src path (commands, seen) = (commands, seen)) \<and>
   (path = base @ str ''/cache/market1/toolkit/1.0.0/SKILL.md'' \<and>
    str ''cache'' \<notin> set (split_sep os_sep base) \<and>
    parse_skill_md src path = (Some (str ''build''), desc) \<and>
    TupleKey (str ''toolkit'') (str ''build'') \<notin> seen \<longrightarrow>
      plugin_body src path (commands, seen) =
        (commands @
           [\<lparr>command = str ''/toolkit:build'', description = desc, takes_args = True\<rparr>],
         insert (TupleKey (str ''toolkit'') (str ''build'')) seen))"
proof (intro conjI impI)
  assume a: "split_sep os_sep path = pre @ str ''cache'' # market # plugin # deeper \<and>
    str ''cache'' \<notin> set pre \<and>
    parse_skill_md src path = (Some name, desc) \<and> name \<noteq> [] \<and> TupleKey plugin name \<notin> seen"
  then have "plugin_name_of path = Some plugin"
    by (simp add: plugin_name_of_parts getitem_def)
  with a show "plugin_body src path (commands, seen) =
        (commands @
           [\<lparr>command = (if plugin = name then str ''/'' @ name
                        else str ''/'' @ plugin @ str '':'' @ name),
             description = desc, takes_args = True\<rparr>],
         insert (TupleKey plugin name) seen)"
    by (simp add: plugin_body_def plugin_emit_def)
next
  assume "str ''cache'' \<notin> set (split_sep os_sep path) \<or>
    (split_sep os_sep path = pre @ str ''cache'' # rest \<and> str ''cache'' \<notin> set pre \<and>
     length rest < 2)"
  then have "plugin_name_of path = None"
    by (auto simp: plugin_name_of_no_anchor plugin_name_of_parts getitem_def)
  then show "plugin_body src path (commands, seen) = (commands, seen)"
    by (simp add: plugin_body_def plugin_emit_def)
next
  assume a: "path = base @ str ''/cache/market1/toolkit/1.0.0/SKILL.md'' \<and>
    str ''cache'' \<notin> set (split_sep os_sep base) \<and>
    parse_skill_md src path = (Some (str ''build''), desc) \<and>
    TupleKey (str ''toolkit'') (str ''build'') \<notin> seen"
  have tail: "str ''/cache/market1/toolkit/1.0.0/SKILL.md'' =
      os_sep # str ''cache/market1/toolkit/1.0.0/SKILL.md''"
    by (simp add: str_def os_sep_def)
  have segs: "split_sep os_sep (str ''cache/market1/toolkit/1.0.0/SKILL.md'') =
      str ''cache'' # [str ''market1'', str ''toolkit'', str ''1.0.0'', str ''SKILL.md'']"
    by (simp add: str_def os_sep_def)
  from a have path: "path = base @ str ''/cache/market1/toolkit/1.0.0/SKILL.md''"
    and base: "str ''cache'' \<notin> set (split_sep os_sep base)"
    and parsed: "parse_skill_md src path = (Some (str ''build''), desc)"
    and fresh: "TupleKey (str ''toolkit'') (str ''build'') \<notin> seen"
    by blast+
  have "split_sep os_sep path =
      split_sep os_sep base @
        str ''cache'' # [str ''market1'', str ''toolkit'', str ''1.0.0'', str ''SKILL.md'']"
    unfolding path by (simp only: tail split_sep_append segs)
  with base have "plugin_name_of path = Some (str ''toolkit'')"
    by (simp add: plugin_name_of_parts getitem_def)
  moreover have "str ''toolkit'' \<noteq> str ''build''" "str ''build'' \<noteq> []"
    by (simp_all add: str_def)
  moreover have "str ''/'' @ str ''toolkit'' @ str '':'' @ str ''build'' = str ''/toolkit:build''"
    by (simp add: str_def)
  moreover note parsed fresh
  ultimately show "plugin_body src path (commands, seen) =
        (commands @
           [\<lparr>command = str ''/toolkit:build'', description = desc, takes_args = True\<rparr>],
         insert (TupleKey (str ''toolkit'') (str ''build'')) seen)"
    by (simp add: plugin_body_def plugin_emit_def)
qed

lemma parse_toolkit:
  "parse_skill_md src_toolkit toolkit_path = (Some (str ''build''), str ''Build it'')"
  by (simp add: src_toolkit_def toolkit_path_def parse_eval)

text \<open>
  The plugin tree of the example gives \<open>/toolkit:build\<close>; a \<open>SKILL.md\<close> directly under
  \<open>cache\<close> has no segment at the offset and is skipped.
\<close>
theorem plugin_entry_witness:
  "plugin_body src_toolkit toolkit_path ([], {}) =
     ([\<lparr>command = str ''/toolkit:build'', description = str ''Build it'', takes_args = True\<rparr>],
      {TupleKey (str ''toolkit'') (str ''build'')}) \<and>
   plugin_body src_toolkit shallow_path ([], {}) = ([], {})"
proof -
  have parts: "split_sep os_sep toolkit_path =
      [[], str ''home'', str ''u'', str ''.claude'', str ''plugins''] @
        str ''cache'' # str ''market1'' # str ''toolkit'' # [str ''1.0.0'', str ''SKILL.md'']"
    by (simp add: toolkit_path_def os_sep_def str_def)
  have fresh: "str ''cache'' \<notin> set [[], str ''home'', str ''u'', str ''.claude'', str ''plugins'']"
    by (simp add: str_def)
  have diff: "str ''toolkit'' \<noteq> str ''build''" "str ''build'' \<noteq> []"
    by (simp_all add: str_def)
  have cmd: "str ''/'' @ str ''toolkit'' @ str '':'' @ str ''build'' = str ''/toolkit:build''"
    by (simp add: str_def)
  have shallow: "split_sep os_sep shallow_path =
      [[], str ''home'', str ''u'', str ''.claude'', str ''plugins''] @
        str ''cache'' # [str ''SKILL.md'']"
    by (simp add: shallow_path_def os_sep_def str_def)
  have one: "plugin_body src_toolkit toolkit_path ([], {}) =
     ([\<lparr>command = str ''/toolkit:build'', description = str ''Build it'', takes_args = True\<rparr>],
      {TupleKey (str ''toolkit'') (str ''build'')})"
    using plugin_entry [of toolkit_path "[[], str ''home'', str ''u'', str ''.claude'', str ''plugins'']"
        "str ''market1''" "str ''toolkit''" "[str ''1.0.0'', str ''SKILL.md'']" src_toolkit
        "str ''build''" "str ''Build it''" "{}" "[]"]
      parts fresh parse_toolkit diff cmd
    by simp
  have two: "plugin_body src_toolkit shallow_path ([], {}) = ([], {})"
    using plugin_entry [of shallow_path "[[], str ''home'', str ''u'', str ''.claude'', str ''plugins'']"
        "str ''market1''" "str ''toolkit''" "[str ''1.0.0'', str ''SKILL.md'']" src_toolkit
        "str ''build''" "str ''Build it''" "{}" "[]" "[str ''SKILL.md'']"]
      shallow fresh
    by simp
  from one two show ?thesis by simp
qed

lemma parse_var_cache:
  "parse_skill_md src_var_cache var_cache_path = (Some (str ''build''), str ''Build it'')"
  by (simp add: src_var_cache_def var_cache_path_def parse_eval)

lemma plugin_name_var_cache: "plugin_name_of var_cache_path = Some (str ''.claude'')"
  by (simp add: plugin_name_of_def var_cache_path_def os_sep_def getitem_def str_def)

text \<open>
  C8. The anchor that the code uses is the first segment \<open>cache\<close> of the whole absolute
  path, not the \<open>cache\<close> directory of the plugin tree. Under the home directory
  \<open>/var/cache/u\<close> the descriptor of the claim's example,
  \<open>.../cache/market1/toolkit/1.0.0/SKILL.md\<close> with the name \<open>build\<close>, has the segment
  \<open>.claude\<close> two places after the first \<open>cache\<close>: the plugin identity is \<open>.claude\<close> and the
  command is \<open>/.claude:build\<close>, where the claim, and the comment
  \<open>marketplace / plugin / version\<close> on the line that reads the segment, say \<open>toolkit\<close> and
  \<open>/toolkit:build\<close>.
\<close>
theorem plugin_anchor_in_home:
  "plugin_body src_var_cache var_cache_path ([], {}) =
     ([\<lparr>command = str ''/.claude:build'', description = str ''Build it'', takes_args = True\<rparr>],
      {TupleKey (str ''.claude'') (str ''build'')}) \<and>
   map command (collect_skill_commands src_var_cache) = [str ''/.claude:build'']"
proof -
  have body: "plugin_body src_var_cache var_cache_path ([], {}) =
     ([\<lparr>command = str ''/.claude:build'', description = str ''Build it'', takes_args = True\<rparr>],
      {TupleKey (str ''.claude'') (str ''build'')})"
    by (simp add: plugin_body_def plugin_emit_def parse_var_cache plugin_name_var_cache)
       (simp add: str_def)
  have "collect_loops src_var_cache = plugin_body src_var_cache var_cache_path ([], {})"
    by (simp add: collect_loops_def src_var_cache_def)
  with body show ?thesis
    by (simp add: collect_skill_commands_def)
qed






section \<open>Properties of the pane mirror\<close>

lemma event_generator_from_append:
  "event_generator_from dumps prev (cs @ ds) =
     (fst (event_generator_from dumps prev cs) @
        fst (event_generator_from dumps (snd (event_generator_from dumps prev cs)) ds),
      snd (event_generator_from dumps (snd (event_generator_from dumps prev cs)) ds))"
  by (induction cs arbitrary: prev) (simp_all split: prod.split)


text \<open>
  C4. A pass whose capture returned, after any earlier passes: when the captured text is the
  baseline left by the earlier passes nothing is yielded, otherwise exactly one frame is
  yielded, \<open>data: \<close> followed by the encoding of the whole captured text and two newlines;
  in both cases the captured text is the baseline afterwards. Two frames are equal exactly
  when the encoded texts are, so the frame carries the encoded capture and nothing of the
  baseline.
\<close>
theorem successful_cycle:
  "event_generator dumps (earlier @ [Inr result]) =
     (fst (event_generator dumps earlier) @
        (if snd (event_generator dumps earlier) = Some (stdout result) then []
         else [str ''data: '' @ dumps (stdout result) @ [NL, NL]]),
      Some (stdout result)) \<and>
   (sse_frame dumps a = sse_frame dumps b \<longleftrightarrow> dumps a = dumps b)"
  by (auto simp add: event_generator_def event_generator_from_append Let_def sse_frame_def)

text \<open>
  C5, as amended. The claim as written fails for a capture that fails without raising (see
  the counterexample below). A pass whose capture call raised (time-out, or the tool
  could not be started) yields nothing and keeps the baseline, so the run up to and
  including it is the run without it; the passes that follow go on as if it had not
  happened.
\<close>
theorem failed_cycle:
  "event_generator dumps (earlier @ [Inl e]) = event_generator dumps earlier \<and>
   event_generator dumps (earlier @ Inl e # later) = event_generator dumps (earlier @ later)"
  by (simp add: event_generator_def event_generator_from_append)

text \<open>
  C5 as written is false: when \<open>tmux\<close> fails with exit status 1 and prints nothing, after a
  capture \<open>A\<close>, the pass yields a frame with the empty text and the baseline becomes the empty
  text. The second run, without the failed capture, shows what the claim promises: one frame
  and the baseline \<open>A\<close>.
\<close>
theorem exit_status_counterexample:
  "event_generator quote_dumps
     [Inr \<lparr>returncode = 0, stdout = str ''A''\<rparr>, Inr \<lparr>returncode = 1, stdout = []\<rparr>] =
     ([str ''data: '' @ [34] @ str ''A'' @ [34] @ [NL, NL],
       str ''data: '' @ [34, 34] @ [NL, NL]],
      Some []) \<and>
   event_generator quote_dumps [Inr \<lparr>returncode = 0, stdout = str ''A''\<rparr>] =
     ([str ''data: '' @ [34] @ str ''A'' @ [34] @ [NL, NL]], Some (str ''A''))"
  by (simp add: event_generator_def sse_frame_def quote_dumps_def Let_def str_def)


section \<open>Properties of the input injector\<close>

text \<open>
  C6. \<open>send_text\<close> first runs \<open>tmux send-keys -t claude -l text\<close>, the text being one
  argument after the flag for literal sending; when that call returns, it runs
  \<open>tmux send-keys -t claude Enter\<close> as a second, separate call, and nothing else.
\<close>
theorem send_text_order:
  "take 1 (fst (send_text tmux run text)) =
     [[tmux, str ''send-keys'', str ''-t'', str ''claude'', str ''-l'', text]] \<and>
   (run [] (literal_argv tmux text) = Inr status \<longrightarrow>
      fst (send_text tmux run text) =
        [[tmux, str ''send-keys'', str ''-t'', str ''claude'', str ''-l'', text],
         [tmux, str ''send-keys'', str ''-t'', str ''claude'', str ''Enter'']])"
  by (simp add: send_text_def literal_argv_def key_argv_def TMUX_SESSION_def split: sum.split)

text \<open>The two calls for the text \<open>hello\<close>, at a session boundary where every call returns.\<close>
theorem send_text_order_witness:
  "fst (send_text (str ''/usr/bin/tmux'') run_ok (str ''hello'')) =
     [[str ''/usr/bin/tmux'', str ''send-keys'', str ''-t'', str ''claude'', str ''-l'', str ''hello''],
      [str ''/usr/bin/tmux'', str ''send-keys'', str ''-t'', str ''claude'', str ''Enter'']]"
  using send_text_order [of "str ''/usr/bin/tmux''" run_ok "str ''hello''" 0]
  by (simp add: run_ok_def)

text \<open>
  C7, as amended. The claim as written fails for a tool that fails without raising (see the
  counterexample below). \<open>send_text\<close> returns \<open>{"status": "sent"}\<close> when both calls return and
  \<open>send_key\<close> when its call returns, whatever the exit status. When a call raises
  (time-out, or the tool could not be started), the exception leaves the handler in place
  of the response, and no call is made after it: there is no retry.
\<close>
theorem injection_result:
  "(run [] (literal_argv tmux text) = Inr status1 \<and>
    run [literal_argv tmux text] (key_argv tmux (str ''Enter'')) = Inr status2 \<longrightarrow>
      send_text tmux run text =
        ([literal_argv tmux text, key_argv tmux (str ''Enter'')],
         Inr [(str ''status'', str ''sent'')])) \<and>
   (run [] (literal_argv tmux text) = Inl e \<longrightarrow>
      send_text tmux run text = ([literal_argv tmux text], Inl e)) \<and>
   (run [] (literal_argv tmux text) = Inr status1 \<and>
    run [literal_argv tmux text] (key_argv tmux (str ''Enter'')) = Inl e \<longrightarrow>
      send_text tmux run text =
        ([literal_argv tmux text, key_argv tmux (str ''Enter'')], Inl e)) \<and>
   (run [] (key_argv tmux key) = Inr status1 \<longrightarrow>
      send_key tmux run key = ([key_argv tmux key], Inr [(str ''status'', str ''sent'')])) \<and>
   (run [] (key_argv tmux key) = Inl e \<longrightarrow>
      send_key tmux run key = ([key_argv tmux key], Inl e))"
  by (simp add: send_text_def send_key_def sent_def)

text \<open>
  The five cases at the example session boundaries: all calls return, the first call times
  out, the second call times out.
\<close>
theorem injection_result_witness:
  "send_text (str ''/usr/bin/tmux'') run_ok (str ''hello'') =
     ([[str ''/usr/bin/tmux'', str ''send-keys'', str ''-t'', str ''claude'', str ''-l'', str ''hello''],
       [str ''/usr/bin/tmux'', str ''send-keys'', str ''-t'', str ''claude'', str ''Enter'']],
      Inr [(str ''status'', str ''sent'')]) \<and>
   send_text (str ''/usr/bin/tmux'') run_timeout (str ''hello'') =
     ([[str ''/usr/bin/tmux'', str ''send-keys'', str ''-t'', str ''claude'', str ''-l'', str ''hello'']],
      Inl TimeoutExpired) \<and>
   send_text (str ''/usr/bin/tmux'') run_second_timeout (str ''hello'') =
     ([[str ''/usr/bin/tmux'', str ''send-keys'', str ''-t'', str ''claude'', str ''-l'', str ''hello''],
       [str ''/usr/bin/tmux'', str ''send-keys'', str ''-t'', str ''claude'', str ''Enter'']],
      Inl TimeoutExpired) \<and>
   send_key (str ''/usr/bin/tmux'') run_ok (str ''Escape'') =
     ([[str ''/usr/bin/tmux'', str ''send-keys'', str ''-t'', str ''claude'', str ''Escape'']],
      Inr [(str ''status'', str ''sent'')]) \<and>
   send_key (str ''/usr/bin/tmux'') run_timeout (str ''Escape'') =
     ([[str ''/usr/bin/tmux'', str ''send-keys'', str ''-t'', str ''claude'', str ''Escape'']],
      Inl TimeoutExpired)"
  using injection_result [of run_ok "str ''/usr/bin/tmux''" "str ''hello''" 0 0 TimeoutExpired "str ''Escape''"]
    injection_result [of run_timeout "str ''/usr/bin/tmux''" "str ''hello''" 0 0 TimeoutExpired "str ''Escape''"]
    injection_result [of run_second_timeout "str ''/usr/bin/tmux''" "str ''hello''" 0 0 TimeoutExpired "str ''Escape''"]
  by (simp add: run_ok_def run_timeout_def run_second_timeout_def literal_argv_def key_argv_def
      TMUX_SESSION_def)

text \<open>
  C7 as written is false: at a session boundary where \<open>tmux\<close> fails with exit status 1 on
  every call, both handlers answer \<open>{"status": "sent"}\<close>.
\<close>
theorem exit_status_sent_counterexample:
  "send_text (str ''/usr/bin/tmux'') run_status1 (str ''hello'') =
     ([[str ''/usr/bin/tmux'', str ''send-keys'', str ''-t'', str ''claude'', str ''-l'', str ''hello''],
       [str ''/usr/bin/tmux'', str ''send-keys'', str ''-t'', str ''claude'', str ''Enter'']],
      Inr [(str ''status'', str ''sent'')]) \<and>
   send_key (str ''/usr/bin/tmux'') run_status1 (str ''Escape'') =
     ([[str ''/usr/bin/tmux'', str ''send-keys'', str ''-t'', str ''claude'', str ''Escape'']],
      Inr [(str ''status'', str ''sent'')])"
  by (simp add: send_text_def send_key_def run_status1_def sent_def literal_argv_def key_argv_def
      TMUX_SESSION_def)

end
